theory Spec2Isabelle
  imports Main
begin

section \<open>Python values, dictionaries and errors\<close>

text \<open>
  The Host of \<^verbatim>\<open>broker/hosts.py\<close> is a Python object whose attributes are created
  dynamically (\<^verbatim>\<open>self.__dict__.update(kwargs)\<close>) and queried with \<^verbatim>\<open>hasattr\<close> and
  \<^verbatim>\<open>getattr\<close>. It is modelled as its instance dictionary: an association list
  from attribute names to Python values, in insertion order.

  Objects of collaborators that are not part of \<^verbatim>\<open>hosts.py\<close> are represented by what
  the Host code observes of them: a container instance by its \<^verbatim>\<open>ports\<close> dictionary and
  by \<^verbatim>\<open>str(client)\<close>, a provider link by its \<^verbatim>\<open>instance\<close> attribute (if it has one), a
  session by the constructor call that made it.
\<close>

datatype pyval =
    PNone
  | PBool bool
  | PInt int
  | PStr string
  | PList "pyval list"
  | PDict "(pyval \<times> pyval) list"
  | PContainer "(pyval \<times> pyval) list" string
  | PProvider "pyval option"
  | PSession session_obj
and session_obj =
    ContainerSession pyval "pyval option"
  | MadeSession "(string \<times> pyval) list"

datatype error =
    HostError
  | AttributeError
  | TypeError
  | ValidationError
  | NotImplementedError

text \<open>Python truthiness, and \<^verbatim>\<open>a or b\<close>. The objects of collaborators define neither
  \<^verbatim>\<open>__bool__\<close> nor \<^verbatim>\<open>__len__\<close> and are truthy.\<close>

fun truthy :: "pyval \<Rightarrow> bool" where
  "truthy PNone = False"
| "truthy (PBool b) = b"
| "truthy (PInt i) = (i \<noteq> 0)"
| "truthy (PStr s) = (s \<noteq> [])"
| "truthy (PList xs) = (xs \<noteq> [])"
| "truthy (PDict d) = (d \<noteq> [])"
| "truthy (PContainer ports client) = True"
| "truthy (PProvider inst) = True"
| "truthy (PSession s) = True"

definition py_or :: "pyval \<Rightarrow> pyval \<Rightarrow> pyval" where
  "py_or a b = (if truthy a then a else b)"

text \<open>Dictionary operations: \<^verbatim>\<open>d.get(k, default)\<close>, \<^verbatim>\<open>d[k] = v\<close>, \<^verbatim>\<open>d.update(kw)\<close>,
  \<^verbatim>\<open>d.pop(k, default)\<close>, \<^verbatim>\<open>k in d\<close>.\<close>

definition dict_get :: "('k \<times> pyval) list \<Rightarrow> 'k \<Rightarrow> pyval \<Rightarrow> pyval" where
  "dict_get d k dflt = (case map_of d k of None \<Rightarrow> dflt | Some v \<Rightarrow> v)"

fun dict_set :: "'k \<Rightarrow> 'v \<Rightarrow> ('k \<times> 'v) list \<Rightarrow> ('k \<times> 'v) list" where
  "dict_set k v [] = [(k, v)]"
| "dict_set k v ((k', v') # d) =
     (if k' = k then (k, v) # d else (k', v') # dict_set k v d)"

definition dict_del :: "'k \<Rightarrow> ('k \<times> 'v) list \<Rightarrow> ('k \<times> 'v) list" where
  "dict_del k d = filter (\<lambda>kv. fst kv \<noteq> k) d"

text \<open>\<^verbatim>\<open>d.update(kw)\<close> sets the keys of \<open>kw\<close> in their order. A Python dictionary holds
  each key once; in a list that repeats a key every reader below sees the first entry
  only, so the later entries of a key already set are skipped.\<close>

function dict_update :: "('k \<times> 'v) list \<Rightarrow> ('k \<times> 'v) list \<Rightarrow> ('k \<times> 'v) list" where
  "dict_update d [] = d"
| "dict_update d ((k, v) # kw) = dict_update (dict_set k v d) (dict_del k kw)"
  by pat_completeness auto
termination
  by (relation "measure (\<lambda>(d, kw). length kw)") (auto simp: dict_del_def less_Suc_eq_le)

definition dict_pop :: "('k \<times> pyval) list \<Rightarrow> 'k \<Rightarrow> pyval \<Rightarrow> pyval \<times> ('k \<times> pyval) list" where
  "dict_pop d k dflt = (dict_get d k dflt, dict_del k d)"

definition has_key :: "('k \<times> 'v) list \<Rightarrow> 'k \<Rightarrow> bool" where
  "has_key d k = (map_of d k \<noteq> None)"

text \<open>Substring test: Python's \<^verbatim>\<open>needle in haystack\<close> on strings.\<close>

fun starts_with :: "string \<Rightarrow> string \<Rightarrow> bool" where
  "starts_with [] s = True"
| "starts_with (p # ps) [] = False"
| "starts_with (p # ps) (c # cs) = (p = c \<and> starts_with ps cs)"

fun str_contains :: "string \<Rightarrow> string \<Rightarrow> bool" where
  "str_contains needle [] = (needle = [])"
| "str_contains needle (c # cs) = (starts_with needle (c # cs) \<or> str_contains needle cs)"

section \<open>The Host, its process and its collaborators\<close>

type_synonym host = "(string \<times> pyval) list"

type_synonym kwargs = "(string \<times> pyval) list"

text \<open>\<^verbatim>\<open>hasattr(self, k)\<close> and the attribute read \<^verbatim>\<open>self.k\<close>, which raises AttributeError
  when the instance has no such attribute (none of the names read this way below is a
  class attribute of Host). The methods of the class are taken not to be shadowed by
  instance attributes of the same name.\<close>

definition hasattr :: "host \<Rightarrow> string \<Rightarrow> bool" where
  "hasattr h k = has_key h k"

definition attr :: "host \<Rightarrow> string \<Rightarrow> error + pyval" where
  "attr h k = (case map_of h k of None \<Rightarrow> Inl AttributeError | Some v \<Rightarrow> Inr v)"

text \<open>The structured result of a remote command (the tests read \<^verbatim>\<open>res.stdout\<close>).\<close>

datatype result = Result (stdout: string) (stderr: string) (status: int)

text \<open>
  What the Host code reads from outside itself: whether
  \<^verbatim>\<open>settings.validators.validate(only="SSH")\<close> returns or raises, the defaults under
  \<^verbatim>\<open>settings.SSH\<close>, what a session's \<^verbatim>\<open>run\<close> returns, and what the constructor of the
  exception class \<^verbatim>\<open>HostError\<close> does with its first positional argument: it returns
  (\<open>None\<close>), or raises an exception of its own. The class is imported from
  \<^verbatim>\<open>broker.exceptions\<close> and is not part of \<^verbatim>\<open>hosts.py\<close>. The session constructors,
  \<^verbatim>\<open>run\<close> and \<^verbatim>\<open>disconnect\<close> are taken to return normally; each call is recorded
  in the log of the process.
\<close>

record env =
  validate_ok :: bool
  HOST_USERNAME :: pyval
  HOST_PASSWORD :: pyval
  HOST_CONNECTION_TIMEOUT :: pyval
  HOST_SSH_PORT :: pyval
  HOST_SSH_KEY_FILENAME :: pyval
  HOST_IPV6 :: pyval
  HOST_IPV4_FALLBACK :: pyval
  run :: "session_obj \<Rightarrow> string \<Rightarrow> pyval \<Rightarrow> result"
  new_HostError :: "pyval \<Rightarrow> error option"

datatype event =
    EvValidate
  | EvOpen session_obj
  | EvDisconnect session_obj
  | EvRun session_obj string pyval

text \<open>The process-wide state: the module global \<^verbatim>\<open>SETTINGS_VALIDATED\<close> and the log of
  the calls made to collaborators.\<close>

record proc =
  SETTINGS_VALIDATED :: bool
  log :: "event list"

definition proc0 :: proc where
  "proc0 = \<lparr>SETTINGS_VALIDATED = False, log = []\<rparr>"

section \<open>Construction\<close>

text \<open>Lines 53-57 of \<^verbatim>\<open>Host.__init__\<close>: the guarded validation. The flag is set only
  after \<^verbatim>\<open>validate\<close> has returned.\<close>

definition validate_settings :: "env \<Rightarrow> proc \<Rightarrow> (error + unit) \<times> proc" where
  "validate_settings e p =
     (if \<not> SETTINGS_VALIDATED p then
        (if validate_ok e
         then (Inr (), p\<lparr>SETTINGS_VALIDATED := True, log := log p @ [EvValidate]\<rparr>)
         else (Inl ValidationError, p\<lparr>log := log p @ [EvValidate]\<rparr>))
      else (Inr (), p))"

text \<open>Lines 68-77: the recognised options are popped from the keyword arguments, each
  defaulting to the process-wide setting; every remaining keyword argument becomes an
  attribute; the session starts as \<^verbatim>\<open>None\<close>.\<close>

definition init_attrs :: "env \<Rightarrow> pyval \<Rightarrow> kwargs \<Rightarrow> host" where
  "init_attrs e hostname kwargs =
     (let (name, kw1) = dict_pop kwargs ''name'' PNone;
          (username, kw2) = dict_pop kw1 ''username'' (HOST_USERNAME e);
          (password, kw3) = dict_pop kw2 ''password'' (HOST_PASSWORD e);
          (timeout, kw4) = dict_pop kw3 ''connection_timeout'' (HOST_CONNECTION_TIMEOUT e);
          (port, kw5) = dict_pop kw4 ''port'' (HOST_SSH_PORT e);
          (key_filename, kw6) = dict_pop kw5 ''key_filename'' (HOST_SSH_KEY_FILENAME e);
          (ipv6, kw7) = dict_pop kw6 ''ipv6'' (HOST_IPV6 e);
          (ipv4_fallback, kw8) = dict_pop kw7 ''ipv4_fallback'' (HOST_IPV4_FALLBACK e);
          h = [(''hostname'', hostname), (''name'', name), (''username'', username),
               (''password'', password), (''timeout'', timeout), (''port'', port),
               (''key_filename'', key_filename), (''ipv6'', ipv6),
               (''ipv4_fallback'', ipv4_fallback)]
      in dict_set ''_session'' PNone (dict_update h kw8))"

text \<open>The statement \<^verbatim>\<open>raise HostError(arg)\<close>: the exception object is built first, so an
  exception raised by the constructor is the one that propagates; HostError is raised
  when the constructor returns.\<close>

definition raise_HostError :: "env \<Rightarrow> pyval \<Rightarrow> error" where
  "raise_HostError e arg = (case new_HostError e arg of None \<Rightarrow> HostError | Some err \<Rightarrow> err)"

text \<open>The one argument of the \<^verbatim>\<open>HostError\<close> call of line 67.\<close>

definition identity_message :: pyval where
  "identity_message = PStr ''Host must be constructed with a hostname or ip''"

text \<open>
  \<^verbatim>\<open>Host.__init__(**kwargs)\<close>. The argument \<open>stack\<close> holds the function names of the
  frames that called the constructor, innermost first; \<^verbatim>\<open>inspect.stack()\<close> sees the
  frame of \<^verbatim>\<open>__init__\<close> itself followed by these.
\<close>

definition init :: "env \<Rightarrow> string list \<Rightarrow> kwargs \<Rightarrow> proc \<Rightarrow> (error + host) \<times> proc" where
  "init e stack kwargs p =
     (case validate_settings e p of
        (Inl err, p') \<Rightarrow> (Inl err, p')
      | (Inr u, p') \<Rightarrow>
          (let hostname = py_or (dict_get kwargs ''hostname'' PNone) (dict_get kwargs ''ip'' PNone)
           in if \<not> truthy hostname \<and> ''reconstruct_host'' \<notin> set (''__init__'' # stack)
              then (Inl (raise_HostError e identity_message), p')
              else (Inr (init_attrs e hostname kwargs), p')))"

section \<open>Sessions\<close>

text \<open>Sequencing of steps that may raise.\<close>

definition py_bind :: "error + 'a \<Rightarrow> ('a \<Rightarrow> error + 'b) \<Rightarrow> error + 'b" where
  "py_bind m f = (case m of Inl err \<Rightarrow> Inl err | Inr x \<Rightarrow> f x)"

text \<open>The method call \<^verbatim>\<open>obj.get(k, default)\<close>: only a dictionary has it.\<close>

definition py_get :: "pyval \<Rightarrow> pyval \<Rightarrow> pyval \<Rightarrow> error + pyval" where
  "py_get obj k dflt =
     (case obj of PDict kv \<Rightarrow> Inr (dict_get kv k dflt) | _ \<Rightarrow> Inl AttributeError)"

text \<open>\<^verbatim>\<open>setattr(self, key, val)\<close> for each option of \<^verbatim>\<open>connect\<close>, in order. The class
  declares \<^verbatim>\<open>session\<close> as a property with a getter only, so assigning to that name
  raises AttributeError; the attributes set before it stay set.\<close>

fun set_attrs :: "host \<Rightarrow> kwargs \<Rightarrow> (error + unit) \<times> host" where
  "set_attrs h [] = (Inr (), h)"
| "set_attrs h ((k, v) # kw) =
     (if k = ''session'' then (Inl AttributeError, h) else set_attrs (dict_set k v h) kw)"

text \<open>The assignment \<^verbatim>\<open>self.session = value\<close> of \<^verbatim>\<open>connect\<close> (lines 110 and 118):
  \<^verbatim>\<open>session\<close> is a property without a setter (lines 85-101), so the assignment raises
  AttributeError and stores nothing.\<close>

definition assign_session :: "pyval \<Rightarrow> host \<Rightarrow> (error + unit) \<times> host" where
  "assign_session v h = (Inl AttributeError, h)"

text \<open>The keyword arguments of the call to \<^verbatim>\<open>make_session\<close> (lines 118-143), evaluated
  in order. Every default of a \<^verbatim>\<open>getattr\<close> is evaluated before the \<^verbatim>\<open>getattr\<close> itself,
  so \<^verbatim>\<open>self._settings\<close> must be a dictionary holding a dictionary (or nothing) under
  \<^verbatim>\<open>"SSH"\<close>, and \<^verbatim>\<open>self.DEFAULT_USER\<close> must exist, also when the Host has the attribute
  asked for.\<close>

definition ssh_setting :: "pyval \<Rightarrow> string \<Rightarrow> pyval \<Rightarrow> error + pyval" where
  "ssh_setting st key dflt =
     py_bind (py_get st (PStr ''SSH'') (PDict [])) (\<lambda>ssh. py_get ssh (PStr key) dflt)"

definition make_session_args :: "host \<Rightarrow> error + (string \<times> pyval) list" where
  "make_session_args h =
     py_bind (attr h ''_settings'') (\<lambda>st.
     py_bind (attr h ''hostname'') (\<lambda>hostname.
     py_bind (ssh_setting st ''HOST_SSH_PORT'' (PInt 22)) (\<lambda>port_d.
     py_bind (attr h ''DEFAULT_USER'') (\<lambda>default_user.
     py_bind (ssh_setting st ''HOST_USERNAME'' default_user) (\<lambda>user_d.
     py_bind (ssh_setting st ''HOST_PASSWORD'' PNone) (\<lambda>password_d.
     py_bind (ssh_setting st ''HOST_SSH_KEY_FILENAME'' PNone) (\<lambda>key_d.
     py_bind (ssh_setting st ''HOST_CONNECTION_TIMEOUT'' (PInt 60)) (\<lambda>timeout_d.
       Inr [(''settings_obj'', st),
            (''hostname'', hostname),
            (''port'', dict_get h ''port'' port_d),
            (''username'', dict_get h ''user'' user_d),
            (''password'', dict_get h ''password'' password_d),
            (''key_filename'', dict_get h ''key_filename'' key_d),
            (''timeout'', dict_get h ''timeout'' timeout_d),
            (''host'', hostname)]))))))))"

text \<open>\<^verbatim>\<open>Host.connect(**kwargs)\<close>, lines 103-143.\<close>

definition connect :: "kwargs \<Rightarrow> host \<Rightarrow> proc \<Rightarrow> (error + unit) \<times> host \<times> proc" where
  "connect kwargs h p =
     (case set_attrs h kwargs of
        (Inl err, h1) \<Rightarrow> (Inl err, h1, p)
      | (Inr u, h1) \<Rightarrow>
          if truthy (py_or (dict_get h1 ''is_container'' PNone) (dict_get h1 ''_cont_inst'' PNone))
          then
            (case attr h1 ''_settings'' of
               Inl err \<Rightarrow> (Inl err, h1, p)
             | Inr st \<Rightarrow>
                 (let s = ContainerSession (dict_get kwargs ''runtime'' PNone) (Some st);
                      (r, h2) = assign_session (PSession s) h1
                  in (r, h2, p\<lparr>log := log p @ [EvOpen s]\<rparr>)))
          else
            (case make_session_args h1 of
               Inl err \<Rightarrow> (Inl err, h1, p)
             | Inr args \<Rightarrow>
                 (let s = MadeSession args;
                      (r, h2) = assign_session (PSession s) h1
                  in (r, h2, p\<lparr>log := log p @ [EvOpen s]\<rparr>))))"

text \<open>The property \<^verbatim>\<open>Host.session\<close>, lines 85-101. The \<^verbatim>\<open>else\<close> branch calls
  \<^verbatim>\<open>self.connect()\<close> and then returns \<^verbatim>\<open>self._session\<close>.\<close>

definition session_via_connect :: "host \<Rightarrow> proc \<Rightarrow> (error + pyval) \<times> host \<times> proc" where
  "session_via_connect h p =
     (case connect [] h p of
        (Inl err, h', p') \<Rightarrow> (Inl err, h', p')
      | (Inr u, h', p') \<Rightarrow>
          (case attr h' ''_session'' of
             Inl err \<Rightarrow> (Inl err, h', p')
           | Inr v \<Rightarrow> (Inr v, h', p')))"

definition session :: "host \<Rightarrow> proc \<Rightarrow> (error + pyval) \<times> host \<times> proc" where
  "session h p =
     (case attr h ''_session'' of
        Inl err \<Rightarrow> (Inl err, h, p)
      | Inr cur \<Rightarrow>
          if cur = PNone then
            (case map_of h ''_cont_inst'' of
               None \<Rightarrow> session_via_connect h p
             | Some (PContainer ports client) \<Rightarrow>
                 if \<not> truthy (dict_get ports (PInt 22) PNone) then
                   (let runtime = (if str_contains ''podman'' client then ''podman'' else ''docker'');
                        s = ContainerSession (PStr runtime) None
                    in (Inr (PSession s), dict_set ''_session'' (PSession s) h,
                        p\<lparr>log := log p @ [EvOpen s]\<rparr>))
                 else session_via_connect h p
             | Some other \<Rightarrow> (Inl AttributeError, h, p))
          else (Inr cur, h, p))"

text \<open>\<^verbatim>\<open>Host.close()\<close>, lines 145-149.\<close>

definition close :: "host \<Rightarrow> proc \<Rightarrow> (error + unit) \<times> host \<times> proc" where
  "close h p =
     (case attr h ''_session'' of
        Inl err \<Rightarrow> (Inl err, h, p)
      | Inr cur \<Rightarrow>
          if cur \<noteq> PNone then
            (case cur of
               PSession s \<Rightarrow>
                 (Inr (), dict_set ''_session'' PNone h, p\<lparr>log := log p @ [EvDisconnect s]\<rparr>)
             | other \<Rightarrow> (Inl AttributeError, h, p))
          else (Inr (), dict_set ''_session'' PNone h, p))"

text \<open>\<^verbatim>\<open>Host.release()\<close>, lines 151-153.\<close>

definition release :: "host \<Rightarrow> error + unit" where
  "release h = Inl NotImplementedError"

section \<open>Command execution\<close>

text \<open>\<^verbatim>\<open>self.default_timeout\<close>: the class attribute \<^verbatim>\<open>default_timeout = 0\<close>, unless the
  instance has an attribute of that name.\<close>

definition default_timeout :: "host \<Rightarrow> pyval" where
  "default_timeout h = dict_get h ''default_timeout'' (PInt 0)"

text \<open>\<^verbatim>\<open>Host.execute(command, timeout=None)\<close>, lines 162-176. An absent timeout argument
  is \<^verbatim>\<open>None\<close>. The debug message reads \<^verbatim>\<open>self.hostname\<close> before the session is used.\<close>

definition execute ::
  "env \<Rightarrow> string \<Rightarrow> pyval \<Rightarrow> host \<Rightarrow> proc \<Rightarrow> (error + result) \<times> host \<times> proc" where
  "execute e command timeout h p =
     (let timeout' = (if timeout = PNone then default_timeout h else timeout)
      in case attr h ''hostname'' of
           Inl err \<Rightarrow> (Inl err, h, p)
         | Inr hn \<Rightarrow>
             (case session h p of
                (Inl err, h', p') \<Rightarrow> (Inl err, h', p')
              | (Inr (PSession s), h', p') \<Rightarrow>
                  (Inr (run e s command timeout'), h',
                   p'\<lparr>log := log p' @ [EvRun s command timeout']\<rparr>)
              | (Inr other, h', p') \<Rightarrow> (Inl AttributeError, h', p')))"

text \<open>Modelled from the spec: the class of the result of \<^verbatim>\<open>run\<close> is not in
  \<^verbatim>\<open>hosts.py\<close>; the probe "relies on textual pattern-matching of shell output", so
  \<^verbatim>\<open>text in result\<close> holds when the text occurs in the captured output.\<close>

definition res_contains :: "string \<Rightarrow> result \<Rightarrow> bool" where
  "res_contains needle r = (str_contains needle (stdout r) \<or> str_contains needle (stderr r))"

text \<open>\<^verbatim>\<open>Host._pkg_mgr()\<close>, lines 156-160: the loop over the candidates.\<close>

fun pkg_mgr_loop ::
  "env \<Rightarrow> string list \<Rightarrow> host \<Rightarrow> proc \<Rightarrow> (error + pyval) \<times> host \<times> proc" where
  "pkg_mgr_loop e [] h p = (Inr PNone, h, p)"
| "pkg_mgr_loop e (mgr # mgrs) h p =
     (case execute e (''which '' @ mgr) PNone h p of
        (Inl err, h', p') \<Rightarrow> (Inl err, h', p')
      | (Inr res, h', p') \<Rightarrow>
          if res_contains (''no '' @ mgr @ '' in'') res then (Inr (PStr mgr), h', p')
          else pkg_mgr_loop e mgrs h' p')"

definition pkg_mgr :: "env \<Rightarrow> host \<Rightarrow> proc \<Rightarrow> (error + pyval) \<times> host \<times> proc" where
  "pkg_mgr e h p = pkg_mgr_loop e [''yum'', ''dnf'', ''zypper''] h p"

section \<open>Serialisation\<close>

definition keep_keys :: "string list" where
  "keep_keys =
     [''hostname'', ''_broker_provider'', ''_broker_args'', ''tower_inventory'',
      ''deploy_network_type'', ''job_id'', ''_attrs'', ''ip'', ''os_distribution'',
      ''os_distribution_version'', ''reported_devices'', ''exposed_ports'']"

text \<open>\<^verbatim>\<open>Host.to_dict()\<close>, lines 178-200. \<^verbatim>\<open>self._prov_inst.instance\<close> is read
  unconditionally.\<close>

definition to_dict :: "host \<Rightarrow> error + (string \<times> pyval) list" where
  "to_dict h =
     (case attr h ''_prov_inst'' of
        Inl err \<Rightarrow> Inl err
      | Inr (PProvider (Some inst)) \<Rightarrow>
          Inr (dict_update
                 [(''name'', dict_get h ''name'' PNone),
                  (''_broker_provider_instance'', inst),
                  (''type'', PStr ''host'')]
                 (filter (\<lambda>kv. fst kv \<in> set keep_keys) h))
      | Inr other \<Rightarrow> Inl AttributeError)"

text \<open>\<^verbatim>\<open>Host.from_dict(arg_dict)\<close>, lines 219-222: \<^verbatim>\<open>cls(**arg_dict, from_dict=True)\<close>.
  A record that has the key \<^verbatim>\<open>from_dict\<close> itself makes the call raise TypeError (the
  keyword is given twice). The constructor is called from the frame of \<^verbatim>\<open>from_dict\<close>.\<close>

definition from_dict :: "env \<Rightarrow> string list \<Rightarrow> kwargs \<Rightarrow> proc \<Rightarrow> (error + host) \<times> proc" where
  "from_dict e stack arg_dict p =
     (if has_key arg_dict ''from_dict'' then (Inl TypeError, p)
      else init e (''from_dict'' # stack) (arg_dict @ [(''from_dict'', PBool True)]) p)"

section \<open>Processes and environments used below\<close>

text \<open>A sequence of constructor calls in one process, each with its call stack and its
  keyword arguments; a call that raises leaves the process state it reached.\<close>

fun constructs :: "env \<Rightarrow> (string list \<times> kwargs) list \<Rightarrow> proc \<Rightarrow> proc" where
  "constructs e [] p = p"
| "constructs e ((stack, kw) # cs) p = constructs e cs (snd (init e stack kw p))"

text \<open>The constructor of the package's exception class,
  \<^verbatim>\<open>HostError.__init__(self, host=None, message=...)\<close>: its first positional argument is
  the host, and when that argument is truthy the constructor formats
  \<^verbatim>\<open>host.hostname\<close> into the message. None of the values modelled here has an attribute
  \<^verbatim>\<open>hostname\<close> (a string has not), so on a truthy one the constructor raises
  AttributeError.\<close>

definition package_HostError :: "pyval \<Rightarrow> error option" where
  "package_HostError host = (if truthy host then Some AttributeError else None)"

text \<open>An environment with valid settings, the package's exception class, and sessions
  that echo the command.\<close>

definition env0 :: env where
  "env0 = \<lparr>validate_ok = True, HOST_USERNAME = PStr ''root'', HOST_PASSWORD = PNone,
            HOST_CONNECTION_TIMEOUT = PInt 60, HOST_SSH_PORT = PInt 22,
            HOST_SSH_KEY_FILENAME = PNone, HOST_IPV6 = PBool False,
            HOST_IPV4_FALLBACK = PBool True,
            run = (\<lambda>s c t. Result c [] 0),
            new_HostError = package_HostError\<rparr>"

text \<open>A host of a machine on which only \<^verbatim>\<open>dnf\<close> is installed: \<^verbatim>\<open>which\<close> prints the
  path of a program it finds and exits with 0, and reports a program it does not find
  on the error stream, exiting with 1.\<close>

definition which_run :: "session_obj \<Rightarrow> string \<Rightarrow> pyval \<Rightarrow> result" where
  "which_run s command t =
     (if command = ''which dnf'' then Result ''/usr/bin/dnf'' [] 0
      else if command = ''which yum'' then Result [] ''which: no yum in (/usr/bin)'' 1
      else Result [] ''which: no zypper in (/usr/bin)'' 1)"

definition env_dnf :: env where
  "env_dnf = env0\<lparr>run := which_run\<rparr>"

text \<open>The Host built by \<^verbatim>\<open>Host(hostname="c1", _cont_inst=c)\<close> for a podman container
  \<open>c\<close> with no port mapped.\<close>

definition host_c1 :: host where
  "host_c1 =
     init_attrs env0 (PStr ''c1'')
       [(''hostname'', PStr ''c1''), (''_cont_inst'', PContainer [] ''<podman client>'')]"

text \<open>A machine on which all three package managers are installed.\<close>

definition which_all :: "session_obj \<Rightarrow> string \<Rightarrow> pyval \<Rightarrow> result" where
  "which_all s command t = Result (''/usr/bin/'' @ drop 6 command) [] 0"

definition env_all :: env where
  "env_all = env0\<lparr>run := which_all\<rparr>"

text \<open>\<^verbatim>\<open>Host(hostname="c2", _settings={}, _cont_inst=c)\<close> for a docker container \<open>c\<close>
  whose port 22 is mapped, and \<^verbatim>\<open>Host(hostname="h1", _settings={}, DEFAULT_USER="root")\<close>,
  a Host without a container that has the attributes \<^verbatim>\<open>connect\<close> reads.\<close>

definition host_c22 :: host where
  "host_c22 =
     init_attrs env0 (PStr ''c2'')
       [(''hostname'', PStr ''c2''), (''_settings'', PDict []),
        (''_cont_inst'', PContainer [(PInt 22, PInt 2222)] ''<docker client>'')]"

definition host_s1 :: host where
  "host_s1 =
     init_attrs env0 (PStr ''h1'')
       [(''hostname'', PStr ''h1''), (''_settings'', PDict []), (''DEFAULT_USER'', PStr ''root'')]"

text \<open>\<^verbatim>\<open>Host(hostname="c5", default_timeout=5, _cont_inst=c)\<close>: a container Host
  configured with a default timeout of its own.\<close>

definition host_c5 :: host where
  "host_c5 =
     init_attrs env0 (PStr ''c5'')
       [(''hostname'', PStr ''c5''), (''default_timeout'', PInt 5),
        (''_cont_inst'', PContainer [] ''<podman client>'')]"

text \<open>Three more Hosts: \<^verbatim>\<open>Host(hostname="h1")\<close> as any caller builds it;
  \<^verbatim>\<open>Host(hostname="h1", name="n1", _prov_inst=prov)\<close> as a provider builds it, with its
  link to a provider whose instance is \<^verbatim>\<open>"i-1"\<close>; and \<^verbatim>\<open>Host(name="n1", _prov_inst=prov)\<close>
  as it is built without an identity under \<^verbatim>\<open>reconstruct_host\<close>.\<close>

definition host_h1 :: host where
  "host_h1 = init_attrs env0 (PStr ''h1'') [(''hostname'', PStr ''h1'')]"

definition host_p1 :: host where
  "host_p1 =
     init_attrs env0 (PStr ''h1'')
       [(''hostname'', PStr ''h1''), (''name'', PStr ''n1''),
        (''_prov_inst'', PProvider (Some (PStr ''i-1'')))]"

definition host_r1 :: host where
  "host_r1 =
     init_attrs env0 PNone
       [(''name'', PStr ''n1''), (''_prov_inst'', PProvider (Some (PStr ''i-1'')))]"

text \<open>The allow-list of the serialised record as the specification documents it: name,
  the provider-instance identifier, type, hostname, provider discriminator, provider
  construction arguments, orchestration-inventory id, network type, job id, attribute
  bag, ip, OS distribution name and version, reported devices, exposed ports.\<close>

definition allow_list :: "string list" where
  "allow_list =
     [''name'', ''_broker_provider_instance'', ''type'', ''hostname'', ''_broker_provider'',
      ''_broker_args'', ''tower_inventory'', ''deploy_network_type'', ''job_id'', ''_attrs'',
      ''ip'', ''os_distribution'', ''os_distribution_version'', ''reported_devices'',
      ''exposed_ports'']"

section \<open>Basic facts\<close>

lemma map_of_dict_set: "map_of (dict_set k v d) = (map_of d)(k \<mapsto> v)"
  by (induction d) (auto simp: fun_eq_iff)

lemma map_of_dict_del: "map_of (dict_del k d) k' = (if k' = k then None else map_of d k')"
  by (induction d) (auto simp: dict_del_def)

lemma map_of_dict_update: "map_of (dict_update d kw) = map_of d ++ map_of kw"
proof (induction d kw rule: dict_update.induct)
  case (1 d)
  show ?case by simp
next
  case (2 d k v kw)
  show ?case
    by (rule ext) (simp add: 2 map_of_dict_set map_of_dict_del map_add_def split: option.splits)
qed

lemma dict_set_same: "map_of d k = Some v \<Longrightarrow> dict_set k v d = d"
  by (induction d) (auto split: if_splits)

lemma attr_dict_set: "attr (dict_set k v h) k' = (if k' = k then Inr v else attr h k')"
  by (simp add: attr_def map_of_dict_set)

lemma dict_get_dict_set:
  "dict_get (dict_set k v d) k' dflt = (if k' = k then v else dict_get d k' dflt)"
  by (simp add: dict_get_def map_of_dict_set)

lemma truthy_py_or: "truthy (py_or a b) = (truthy a \<or> truthy b)"
  by (simp add: py_or_def)

lemma set_attrs_error: "set_attrs h kw = (Inl err, h') \<Longrightarrow> err = AttributeError"
  by (induction h kw rule: set_attrs.induct) (auto split: if_splits)

lemma attr_error: "attr h k = Inl err \<Longrightarrow> err = AttributeError"
  by (auto simp: attr_def split: option.splits)

lemma py_get_error: "py_get obj k d = Inl err \<Longrightarrow> err = AttributeError"
  by (auto simp: py_get_def split: pyval.splits)

lemma ssh_setting_error: "ssh_setting st key d = Inl err \<Longrightarrow> err = AttributeError"
  by (auto simp: ssh_setting_def py_bind_def split: sum.splits dest: py_get_error)

lemma make_session_args_error: "make_session_args h = Inl err \<Longrightarrow> err = AttributeError"
  by (auto simp: make_session_args_def py_bind_def split: sum.splits
           dest: attr_error ssh_setting_error)

text \<open>Every path through \<^verbatim>\<open>connect\<close> ends in AttributeError: at the latest, the
  assignment to the property \<^verbatim>\<open>session\<close> raises it.\<close>

lemma connect_raises: "fst (connect kwargs h p) = Inl AttributeError"
  by (auto simp: connect_def assign_session_def Let_def
           split: prod.splits sum.splits
           dest: attr_error make_session_args_error set_attrs_error)

lemma connect_nil_host: "fst (snd (connect [] h p)) = h"
  by (auto simp: connect_def assign_session_def Let_def split: prod.splits sum.splits)

lemma validate_settings_cases:
  "validate_settings e p =
     (if SETTINGS_VALIDATED p then (Inr (), p)
      else if validate_ok e
           then (Inr (), p\<lparr>SETTINGS_VALIDATED := True, log := log p @ [EvValidate]\<rparr>)
           else (Inl ValidationError, p\<lparr>log := log p @ [EvValidate]\<rparr>))"
  by (simp add: validate_settings_def)

lemma init_proc: "snd (init e stack kw p) = snd (validate_settings e p)"
  by (auto simp: init_def Let_def split: prod.splits sum.splits)

section \<open>Construction: the identity check\<close>

lemma init_cases:
  "fst (init e stack kwargs p) =
     (if \<not> SETTINGS_VALIDATED p \<and> \<not> validate_ok e then Inl ValidationError
      else if \<not> truthy (dict_get kwargs ''hostname'' PNone)
              \<and> \<not> truthy (dict_get kwargs ''ip'' PNone)
              \<and> ''reconstruct_host'' \<notin> set stack
      then Inl (raise_HostError e identity_message)
      else Inr (init_attrs e
                  (py_or (dict_get kwargs ''hostname'' PNone) (dict_get kwargs ''ip'' PNone))
                  kwargs))"
  by (auto simp: init_def validate_settings_cases truthy_py_or Let_def)

lemma raise_package_HostError: "raise_HostError env0 identity_message = AttributeError"
  by (simp add: raise_HostError_def env0_def package_HostError_def identity_message_def)


section \<open>Construction: the settings gate\<close>

lemma constructs_validated: "SETTINGS_VALIDATED p \<Longrightarrow> constructs e cs p = p"
  by (induction cs arbitrary: p) (auto simp: init_proc validate_settings_cases)

lemma constructs_failing:
  "\<not> validate_ok e \<Longrightarrow> \<not> SETTINGS_VALIDATED p \<Longrightarrow>
   constructs e cs p = p\<lparr>log := log p @ replicate (length cs) EvValidate\<rparr>"
proof (induction cs arbitrary: p)
  case Nil
  then show ?case by simp
next
  case (Cons c cs)
  obtain stack kw where c: "c = (stack, kw)" by (cases c)
  let ?p' = "p\<lparr>log := log p @ [EvValidate]\<rparr>"
  have "constructs e (c # cs) p = constructs e cs ?p'"
    using Cons.prems by (simp add: c init_proc validate_settings_cases)
  also have "\<dots> = ?p'\<lparr>log := log ?p' @ replicate (length cs) EvValidate\<rparr>"
    using Cons.prems by (intro Cons.IH) simp_all
  finally show ?case by (simp add: replicate_app_Cons_same)
qed

text \<open>
  Claim C9. A construction runs the validation when the flag \<^verbatim>\<open>SETTINGS_VALIDATED\<close> is
  unset, and leaves the process untouched once it is set. From a fresh process, any
  non-empty sequence of constructions therefore runs the validation exactly once,
  during the first of them, provided the validation returns; when it raises, the flag
  stays unset and every construction of the sequence runs it again.
\<close>

theorem validation_runs_once:
  "(\<not> SETTINGS_VALIDATED p \<longrightarrow> log (snd (init e stack kw p)) = log p @ [EvValidate])
   \<and> (SETTINGS_VALIDATED p \<longrightarrow> snd (init e stack kw p) = p)
   \<and> (validate_ok e \<and> cs \<noteq> [] \<longrightarrow> log (constructs e cs proc0) = [EvValidate])
   \<and> (\<not> validate_ok e \<longrightarrow>
        log (constructs e cs proc0) = replicate (length cs) EvValidate)"
proof (intro conjI impI)
  assume "validate_ok e \<and> cs \<noteq> []"
  then obtain c cs' where cs: "cs = c # cs'" and ok: "validate_ok e" by (cases cs) auto
  obtain stack' kw' where c: "c = (stack', kw')" by (cases c)
  show "log (constructs e cs proc0) = [EvValidate]"
    using ok by (simp add: cs c init_proc validate_settings_cases proc0_def constructs_validated)
next
  assume "\<not> validate_ok e"
  then show "log (constructs e cs proc0) = replicate (length cs) EvValidate"
    by (simp add: constructs_failing proc0_def)
qed (simp_all add: init_proc validate_settings_cases)

theorem validation_runs_once_witness:
  "validate_ok env0
   \<and> [([], [(''hostname'', PStr ''h1'')]), ([], [(''hostname'', PStr ''h2'')])] \<noteq> []
   \<and> log (constructs env0
            [([], [(''hostname'', PStr ''h1'')]), ([], [(''hostname'', PStr ''h2'')])] proc0)
       = [EvValidate]
   \<and> \<not> SETTINGS_VALIDATED proc0
   \<and> log (snd (init env0 [] [(''hostname'', PStr ''h1'')] proc0)) = [EvValidate]"
  using validation_runs_once [of proc0 env0 "[]" "[(''hostname'', PStr ''h1'')]"
      "[([], [(''hostname'', PStr ''h1'')]), ([], [(''hostname'', PStr ''h2'')])]"]
  by (simp add: env0_def proc0_def)

text \<open>With settings that do not validate, two constructions run the validation twice.\<close>

theorem validation_repeated_counterexample:
  "count_list (log (constructs (env0\<lparr>validate_ok := False\<rparr>)
      [([], [(''hostname'', PStr ''h1'')]), ([], [(''hostname'', PStr ''h2'')])] proc0))
     EvValidate = 2"
  by (simp add: init_proc validate_settings_cases proc0_def env0_def)

section \<open>Reconstruction from a record\<close>

lemma map_of_init_attrs_session: "map_of (init_attrs e hn kw) ''_session'' = Some PNone"
  by (simp add: init_attrs_def dict_pop_def Let_def map_of_dict_set)

lemma map_of_init_attrs_hostname:
  "map_of (init_attrs e hn kw) ''hostname'' = Some (dict_get kw ''hostname'' hn)"
  by (simp add: init_attrs_def dict_pop_def Let_def map_of_dict_set map_of_dict_update
                map_add_def map_of_dict_del dict_get_def split: option.splits)

lemma map_of_init_attrs_name:
  "map_of (init_attrs e hn kw) ''name'' = Some (dict_get kw ''name'' PNone)"
  by (simp add: init_attrs_def dict_pop_def Let_def map_of_dict_set map_of_dict_update
                map_add_def map_of_dict_del dict_get_def split: option.splits)

lemma map_of_init_attrs_other:
  "k \<notin> {''hostname'', ''name'', ''username'', ''password'', ''timeout'', ''connection_timeout'',
        ''port'', ''key_filename'', ''ipv6'', ''ipv4_fallback'', ''_session''}
   \<Longrightarrow> map_of (init_attrs e hn kw) k = map_of kw k"
  by (simp add: init_attrs_def dict_pop_def Let_def map_of_dict_set map_of_dict_update
                map_add_def map_of_dict_del dict_get_def split: option.splits)

lemma init_accepts:
  "SETTINGS_VALIDATED p \<or> validate_ok e \<Longrightarrow>
   truthy (dict_get kw ''hostname'' PNone) \<or> truthy (dict_get kw ''ip'' PNone)
     \<or> ''reconstruct_host'' \<in> set stack \<Longrightarrow>
   fst (init e stack kw p)
     = Inr (init_attrs e (py_or (dict_get kw ''hostname'' PNone) (dict_get kw ''ip'' PNone)) kw)"
  by (auto simp: init_def validate_settings_cases truthy_py_or Let_def)

lemma init_result:
  "fst (init e stack kw p) = Inr h \<Longrightarrow>
   h = init_attrs e (py_or (dict_get kw ''hostname'' PNone) (dict_get kw ''ip'' PNone)) kw"
  by (auto simp: init_def Let_def split: prod.splits sum.splits if_splits)

lemma dict_get_append_fresh:
  "\<not> has_key r k' \<Longrightarrow> k \<noteq> k' \<Longrightarrow> dict_get (r @ [(k', v)]) k d = dict_get r k d"
  by (simp add: dict_get_def has_key_def map_add_def split: option.splits)

lemma map_of_append_fresh: "\<not> has_key r k' \<Longrightarrow> map_of (r @ [(k', v)]) k' = Some v"
  by (simp add: has_key_def map_add_def split: option.splits)

lemma map_of_append_other: "k \<noteq> k' \<Longrightarrow> map_of (r @ [(k', v)]) k = map_of r k"
  by (simp add: map_add_def split: option.splits)

text \<open>
  Claim C3. For a record without the key \<^verbatim>\<open>from_dict\<close> (as every record that \<^verbatim>\<open>to_dict\<close>
  returns), \<^verbatim>\<open>from_dict\<close> does exactly what the constructor does when it is called from
  the frame of \<^verbatim>\<open>from_dict\<close> with the entries of the record and the extra keyword
  \<^verbatim>\<open>from_dict=True\<close>: the Host it yields has the record's name and hostname, the other
  entries of the record as attributes, and the attribute \<^verbatim>\<open>from_dict = True\<close>, which the
  constructor stores like any other and never reads. \<^verbatim>\<open>from_dict\<close> itself does not relax
  the identity check: when the settings gate is or has been passed and the record has no
  truthy \<^verbatim>\<open>hostname\<close> or \<^verbatim>\<open>ip\<close>, the record is accepted if a frame named
  \<^verbatim>\<open>reconstruct_host\<close> is on the call stack, and otherwise construction fails at the
  \<^verbatim>\<open>raise\<close> of line 67.
\<close>

theorem from_dict_identity:
  assumes "\<not> has_key r ''from_dict''"
  shows "from_dict e stack r p
           = init e (''from_dict'' # stack) (r @ [(''from_dict'', PBool True)]) p
       \<and> (\<forall>h. fst (from_dict e stack r p) = Inr h \<longrightarrow>
             attr h ''from_dict'' = Inr (PBool True)
             \<and> attr h ''name'' = Inr (dict_get r ''name'' PNone)
             \<and> attr h ''hostname'' = Inr (dict_get r ''hostname'' (dict_get r ''ip'' PNone))
             \<and> (\<forall>k. k \<notin> {''hostname'', ''name'', ''username'', ''password'', ''timeout'',
                          ''connection_timeout'', ''port'', ''key_filename'', ''ipv6'',
                          ''ipv4_fallback'', ''_session'', ''from_dict''}
                    \<longrightarrow> map_of h k = map_of r k))
       \<and> ((SETTINGS_VALIDATED p \<or> validate_ok e)
            \<and> \<not> truthy (dict_get r ''hostname'' PNone)
            \<and> \<not> truthy (dict_get r ''ip'' PNone) \<longrightarrow>
             (''reconstruct_host'' \<in> set stack \<longrightarrow> (\<exists>h. fst (from_dict e stack r p) = Inr h))
             \<and> (''reconstruct_host'' \<notin> set stack \<longrightarrow>
                  fst (from_dict e stack r p) = Inl (raise_HostError e identity_message)))"
proof -
  let ?kw = "r @ [(''from_dict'', PBool True)]"
  have eq: "from_dict e stack r p = init e (''from_dict'' # stack) ?kw p"
    using assms by (simp add: from_dict_def)
  have hn: "dict_get ?kw ''hostname'' x = dict_get r ''hostname'' x"
    and ip: "dict_get ?kw ''ip'' x = dict_get r ''ip'' x"
    and nm: "dict_get ?kw ''name'' x = dict_get r ''name'' x" for x
    using assms by (simp_all add: dict_get_append_fresh)
  have attrs: "attr h ''from_dict'' = Inr (PBool True)
      \<and> attr h ''name'' = Inr (dict_get r ''name'' PNone)
      \<and> attr h ''hostname'' = Inr (dict_get r ''hostname'' (dict_get r ''ip'' PNone))
      \<and> (\<forall>k. k \<notin> {''hostname'', ''name'', ''username'', ''password'', ''timeout'',
                   ''connection_timeout'', ''port'', ''key_filename'', ''ipv6'',
                   ''ipv4_fallback'', ''_session'', ''from_dict''}
             \<longrightarrow> map_of h k = map_of r k)"
    if acc: "fst (from_dict e stack r p) = Inr h" for h
  proof -
    let ?hn = "py_or (dict_get ?kw ''hostname'' PNone) (dict_get ?kw ''ip'' PNone)"
    from acc have h: "h = init_attrs e ?hn ?kw"
      unfolding eq by (rule init_result)
    have 1: "attr h ''from_dict'' = Inr (PBool True)"
      unfolding h using assms
      by (simp add: attr_def map_of_init_attrs_other map_of_append_fresh del: map_of_append)
    have 2: "attr h ''name'' = Inr (dict_get r ''name'' PNone)"
      unfolding h by (simp add: attr_def map_of_init_attrs_name nm)
    have 3: "attr h ''hostname'' = Inr (dict_get r ''hostname'' (dict_get r ''ip'' PNone))"
      unfolding h
      by (simp add: attr_def map_of_init_attrs_hostname hn ip)
         (simp add: dict_get_def py_or_def split: option.splits)
    have 4: "map_of h k = map_of r k"
      if "k \<notin> {''hostname'', ''name'', ''username'', ''password'', ''timeout'',
                 ''connection_timeout'', ''port'', ''key_filename'', ''ipv6'',
                 ''ipv4_fallback'', ''_session'', ''from_dict''}" for k
      unfolding h using that
      by (simp add: map_of_init_attrs_other map_of_append_other del: map_of_append)
    from 1 2 3 4 show ?thesis by blast
  qed
  have ident: "(''reconstruct_host'' \<in> set stack \<longrightarrow> (\<exists>h. fst (from_dict e stack r p) = Inr h))
      \<and> (''reconstruct_host'' \<notin> set stack \<longrightarrow>
           fst (from_dict e stack r p) = Inl (raise_HostError e identity_message))"
    if "(SETTINGS_VALIDATED p \<or> validate_ok e)
        \<and> \<not> truthy (dict_get r ''hostname'' PNone) \<and> \<not> truthy (dict_get r ''ip'' PNone)"
    using that unfolding eq by (auto simp: init_cases hn ip)
  from eq attrs ident show ?thesis by blast
qed

theorem from_dict_identity_witness:
  "\<not> has_key [(''name'', PStr ''n1''), (''job_id'', PInt 7)] ''from_dict''
   \<and> validate_ok env0
   \<and> \<not> truthy (dict_get [(''name'', PStr ''n1''), (''job_id'', PInt 7)] ''hostname'' PNone)
   \<and> \<not> truthy (dict_get [(''name'', PStr ''n1''), (''job_id'', PInt 7)] ''ip'' PNone)
   \<and> ''reconstruct_host'' \<in> set [''reconstruct_host'', ''checkin'']
   \<and> (\<exists>h. fst (from_dict env0 [''reconstruct_host'', ''checkin'']
                   [(''name'', PStr ''n1''), (''job_id'', PInt 7)] proc0) = Inr h
          \<and> attr h ''from_dict'' = Inr (PBool True)
          \<and> attr h ''name'' = Inr (PStr ''n1'')
          \<and> attr h ''hostname'' = Inr PNone
          \<and> map_of h ''job_id'' = Some (PInt 7))
   \<and> ''reconstruct_host'' \<notin> set [''main'']
   \<and> fst (from_dict env0 [''main''] [(''name'', PStr ''n1''), (''job_id'', PInt 7)] proc0)
       = Inl AttributeError"
proof -
  let ?r = "[(''name'', PStr ''n1''), (''job_id'', PInt 7)]"
  have nk: "\<not> has_key ?r ''from_dict''" by (simp add: has_key_def)
  have ok: "validate_ok env0" by (simp add: env0_def)
  have nh: "\<not> truthy (dict_get ?r ''hostname'' PNone)"
    and ni: "\<not> truthy (dict_get ?r ''ip'' PNone)"
    by (simp_all add: dict_get_def)
  note a = from_dict_identity [OF nk, of env0 "[''reconstruct_host'', ''checkin'']" proc0]
  note b = from_dict_identity [OF nk, of env0 "[''main'']" proc0]
  from a ok nh ni obtain h where
    h: "fst (from_dict env0 [''reconstruct_host'', ''checkin''] ?r proc0) = Inr h"
    by auto
  from a h have "attr h ''from_dict'' = Inr (PBool True)"
    and "attr h ''name'' = Inr (PStr ''n1'')"
    and "attr h ''hostname'' = Inr PNone"
    and "map_of h ''job_id'' = Some (PInt 7)"
    by (simp_all add: dict_get_def)
  moreover from b ok nh ni
  have "fst (from_dict env0 [''main''] ?r proc0) = Inl (raise_HostError env0 identity_message)"
    by auto
  then have "fst (from_dict env0 [''main''] ?r proc0) = Inl AttributeError"
    by (simp only: raise_package_HostError)
  ultimately show ?thesis using nk ok nh ni h by auto
qed

text \<open>Called from anywhere else, \<^verbatim>\<open>from_dict\<close> does not accept a record that has a name
  only.\<close>

theorem from_dict_counterexample:
  "fst (from_dict env0 [] [(''name'', PStr ''n1'')] proc0) = Inl AttributeError"
  by (simp add: from_dict_def has_key_def init_cases raise_package_HostError)
     (simp add: env0_def proc0_def dict_get_def)

section \<open>The session after \<^verbatim>\<open>connect\<close> and \<^verbatim>\<open>execute\<close>\<close>

text \<open>
  Claim C1. The session is \<^verbatim>\<open>None\<close> after construction, but neither \<^verbatim>\<open>connect()\<close> nor
  the first \<^verbatim>\<open>execute\<close> attaches one on a Host reached over SSH. For
  \<^verbatim>\<open>Host(hostname="h1")\<close> both raise AttributeError and leave the session \<^verbatim>\<open>None\<close>. For
  \<^verbatim>\<open>Host(hostname="h1", _settings={}, DEFAULT_USER="root")\<close>, \<^verbatim>\<open>connect()\<close> gets as far as
  building the session with \<^verbatim>\<open>make_session\<close>; the assignment to the property \<^verbatim>\<open>session\<close>,
  which has no setter, then raises AttributeError and the session stays \<^verbatim>\<open>None\<close>.
\<close>

theorem connect_never_attaches:
  "(case init env0 [] [(''hostname'', PStr ''h1'')] proc0 of
      (Inl err, p) \<Rightarrow> False
    | (Inr h, p) \<Rightarrow>
        attr h ''_session'' = Inr PNone
        \<and> fst (connect [] h p) = Inl AttributeError
        \<and> attr (fst (snd (connect [] h p))) ''_session'' = Inr PNone
        \<and> fst (execute env0 ''echo ok'' PNone h p) = Inl AttributeError
        \<and> attr (fst (snd (execute env0 ''echo ok'' PNone h p))) ''_session'' = Inr PNone)
   \<and> (case init env0 []
          [(''hostname'', PStr ''h1''), (''_settings'', PDict []), (''DEFAULT_USER'', PStr ''root'')]
          proc0 of
      (Inl err, p) \<Rightarrow> False
    | (Inr h, p) \<Rightarrow>
        attr h ''_session'' = Inr PNone
        \<and> fst (connect [] h p) = Inl AttributeError
        \<and> attr (fst (snd (connect [] h p))) ''_session'' = Inr PNone
        \<and> log (snd (snd (connect [] h p)))
            = [EvValidate,
               EvOpen (MadeSession
                 [(''settings_obj'', PDict []), (''hostname'', PStr ''h1''),
                  (''port'', PInt 22), (''username'', PStr ''root''),
                  (''password'', PNone), (''key_filename'', PNone),
                  (''timeout'', PInt 60), (''host'', PStr ''h1'')])]
        \<and> fst (execute env0 ''echo ok'' PNone h p) = Inl AttributeError
        \<and> attr (fst (snd (execute env0 ''echo ok'' PNone h p))) ''_session'' = Inr PNone)"
  by (simp add: init_def validate_settings_cases py_or_def env0_def proc0_def dict_get_def
        init_attrs_def dict_pop_def dict_del_def Let_def attr_def
        connect_def execute_def session_def session_via_connect_def assign_session_def
        make_session_args_def py_bind_def ssh_setting_def py_get_def default_timeout_def)

section \<open>Closing the session\<close>

text \<open>
  Claim C6. On a Host whose session is attached, \<^verbatim>\<open>close()\<close> returns normally, calls the
  session's \<^verbatim>\<open>disconnect\<close> exactly once (the log grows by that one call) and leaves
  the session \<^verbatim>\<open>None\<close>; a second \<^verbatim>\<open>close()\<close> then returns normally and changes
  nothing. On a Host whose session is \<^verbatim>\<open>None\<close>, \<^verbatim>\<open>close()\<close> returns normally and changes
  nothing.
\<close>

theorem close_disconnects_once:
  "(attr h ''_session'' = Inr (PSession s) \<longrightarrow>
      (\<exists>h' p'. close h p = (Inr (), h', p')
         \<and> log p' = log p @ [EvDisconnect s]
         \<and> attr h' ''_session'' = Inr PNone
         \<and> close h' p' = (Inr (), h', p')))
   \<and> (attr h ''_session'' = Inr PNone \<longrightarrow> close h p = (Inr (), h, p))"
  by (auto simp: close_def attr_dict_set dict_set_same attr_def map_of_dict_set
           split: option.splits)

theorem close_disconnects_once_witness:
  "attr [(''hostname'', PStr ''c1''), (''_session'', PSession (ContainerSession (PStr ''podman'') None))]
        ''_session'' = Inr (PSession (ContainerSession (PStr ''podman'') None))
   \<and> (\<exists>h' p'. close [(''hostname'', PStr ''c1''), (''_session'', PSession (ContainerSession (PStr ''podman'') None))] proc0
                 = (Inr (), h', p')
         \<and> log p' = log proc0 @ [EvDisconnect (ContainerSession (PStr ''podman'') None)]
         \<and> attr h' ''_session'' = Inr PNone
         \<and> close h' p' = (Inr (), h', p'))
   \<and> attr [(''hostname'', PStr ''c1''), (''_session'', PNone)] ''_session'' = Inr PNone
   \<and> close [(''hostname'', PStr ''c1''), (''_session'', PNone)] proc0
        = (Inr (), [(''hostname'', PStr ''c1''), (''_session'', PNone)], proc0)"
  using close_disconnects_once
          [of "[(''hostname'', PStr ''c1''), (''_session'', PSession (ContainerSession (PStr ''podman'') None))]"
              "ContainerSession (PStr ''podman'') None" proc0]
        close_disconnects_once
          [of "[(''hostname'', PStr ''c1''), (''_session'', PNone)]" s proc0 for s]
  by (simp add: attr_def)

section \<open>Timeouts of \<^verbatim>\<open>execute\<close>\<close>

lemma session_via_connect_raises: "fst (session_via_connect h p) = Inl AttributeError"
  using connect_raises [of "[]" h p]
  by (auto simp: session_via_connect_def split: prod.splits sum.splits)

lemma session_returns:
  assumes "session h p = (Inr v, h', p')"
  shows "(attr h ''_session'' = Inr v \<and> v \<noteq> PNone \<and> h' = h \<and> p' = p)
       \<or> (attr h ''_session'' = Inr PNone
          \<and> (\<exists>ports client s. map_of h ''_cont_inst'' = Some (PContainer ports client)
                \<and> \<not> truthy (dict_get ports (PInt 22) PNone)
                \<and> s = ContainerSession
                        (PStr (if str_contains ''podman'' client then ''podman'' else ''docker'')) None
                \<and> v = PSession s \<and> h' = dict_set ''_session'' v h
                \<and> p' = p\<lparr>log := log p @ [EvOpen s]\<rparr>))"
  using assms session_via_connect_raises [of h p]
  by (auto simp: session_def Let_def split: sum.splits if_splits option.splits pyval.splits)

lemma session_keeps_attrs:
  "session h p = (Inr v, h', p') \<Longrightarrow> k \<noteq> ''_session'' \<Longrightarrow> map_of h' k = map_of h k"
  by (auto dest!: session_returns simp: map_of_dict_set)

lemma host_c1_session:
  "session host_c1 proc0
     = (Inr (PSession (ContainerSession (PStr ''podman'') None)),
        dict_set ''_session'' (PSession (ContainerSession (PStr ''podman'') None)) host_c1,
        proc0\<lparr>log := [EvOpen (ContainerSession (PStr ''podman'') None)]\<rparr>)"
  by (simp add: session_def host_c1_def attr_def map_of_init_attrs_session
        map_of_init_attrs_other dict_get_def Let_def proc0_def)

lemma host_c1_hostname: "attr host_c1 ''hostname'' = Inr (PStr ''c1'')"
  by (simp add: host_c1_def attr_def map_of_init_attrs_hostname dict_get_def)

text \<open>What \<^verbatim>\<open>execute\<close> passes to \<^verbatim>\<open>run\<close> once the accessor has handed out a session:
  the Host's \<^verbatim>\<open>default_timeout\<close> when the timeout argument is absent, the argument
  otherwise, leaving the default as it was.\<close>

lemma execute_passes_timeout:
  assumes "attr h ''hostname'' = Inr hn"
    and "session h p = (Inr (PSession s), h', p')"
  shows "execute e command PNone h p
           = (Inr (run e s command (default_timeout h)), h',
              p'\<lparr>log := log p' @ [EvRun s command (default_timeout h)]\<rparr>)
       \<and> (T \<noteq> PNone \<longrightarrow>
            execute e command T h p
              = (Inr (run e s command T), h', p'\<lparr>log := log p' @ [EvRun s command T]\<rparr>))
       \<and> default_timeout h' = default_timeout h
       \<and> (\<not> hasattr h ''default_timeout'' \<longrightarrow> default_timeout h = PInt 0)"
  using assms session_keeps_attrs [OF assms(2), of "''default_timeout''"]
  by (simp add: execute_def default_timeout_def dict_get_def hasattr_def has_key_def Let_def)

lemma execute_passes_timeout_example:
  "attr host_c1 ''hostname'' = Inr (PStr ''c1'')
   \<and> fst (session host_c1 proc0) = Inr (PSession (ContainerSession (PStr ''podman'') None))
   \<and> fst (execute env0 ''echo ok'' PNone host_c1 proc0) = Inr (Result ''echo ok'' [] 0)
   \<and> log (snd (snd (execute env0 ''echo ok'' PNone host_c1 proc0)))
       = [EvOpen (ContainerSession (PStr ''podman'') None),
          EvRun (ContainerSession (PStr ''podman'') None) ''echo ok'' (PInt 0)]
   \<and> PInt 5 \<noteq> PNone
   \<and> log (snd (snd (execute env0 ''echo ok'' (PInt 5) host_c1 proc0)))
       = [EvOpen (ContainerSession (PStr ''podman'') None),
          EvRun (ContainerSession (PStr ''podman'') None) ''echo ok'' (PInt 5)]
   \<and> default_timeout (fst (snd (execute env0 ''echo ok'' (PInt 5) host_c1 proc0))) = PInt 0"
  using execute_passes_timeout [OF host_c1_hostname host_c1_session, of env0 "''echo ok''" "PInt 5"]
        host_c1_hostname host_c1_session
  by (simp add: env0_def default_timeout_def dict_get_def host_c1_def map_of_init_attrs_other hasattr_def has_key_def)

lemma host_c5_eq:
  "host_c5 = [(''hostname'', PStr ''c5''), (''name'', PNone), (''username'', PStr ''root''),
      (''password'', PNone), (''timeout'', PInt 60), (''port'', PInt 22),
      (''key_filename'', PNone), (''ipv6'', PBool False), (''ipv4_fallback'', PBool True),
      (''default_timeout'', PInt 5), (''_cont_inst'', PContainer [] ''<podman client>''),
      (''_session'', PNone)]"
  by (simp add: host_c5_def init_attrs_def dict_pop_def dict_get_def dict_del_def env0_def)

text \<open>A Host configured with a default timeout of its own passes that one.\<close>

lemma execute_configured_default:
  "default_timeout host_c5 = PInt 5
   \<and> log (snd (snd (execute env0 ''echo ok'' PNone host_c5 proc0)))
       = [EvOpen (ContainerSession (PStr ''podman'') None),
          EvRun (ContainerSession (PStr ''podman'') None) ''echo ok'' (PInt 5)]
   \<and> log (snd (snd (execute env0 ''echo ok'' (PInt 9) host_c5 proc0)))
       = [EvOpen (ContainerSession (PStr ''podman'') None),
          EvRun (ContainerSession (PStr ''podman'') None) ''echo ok'' (PInt 9)]
   \<and> default_timeout (fst (snd (execute env0 ''echo ok'' (PInt 9) host_c5 proc0))) = PInt 5"
  by (simp add: host_c5_eq execute_def session_def attr_def default_timeout_def dict_get_def
        proc0_def Let_def)

text \<open>A Host without a session and without a container instance never reaches
  \<^verbatim>\<open>run\<close>: the accessor calls \<^verbatim>\<open>connect()\<close>, which raises.\<close>

lemma execute_raises_unless_container:
  assumes "attr h ''_session'' = Inr PNone" and "map_of h ''_cont_inst'' = None"
  shows "fst (execute e command T h p) = Inl AttributeError"
proof (cases "attr h ''hostname''")
  case (Inl err)
  then show ?thesis by (auto simp: execute_def Let_def dest: attr_error)
next
  case (Inr hn)
  have "session h p = session_via_connect h p"
    using assms by (simp add: session_def)
  then have "fst (session h p) = Inl AttributeError"
    by (simp add: session_via_connect_raises)
  then show ?thesis
    using Inr by (auto simp: execute_def Let_def split: prod.splits sum.splits)
qed

text \<open>
  Claim C8. \<^verbatim>\<open>execute\<close> selects the timeout as claimed, but on a Host that reaches its
  machine over SSH it never gets to pass it on: for \<^verbatim>\<open>Host(hostname="h1")\<close>, every
  command and every timeout argument, the session accessor calls \<^verbatim>\<open>connect()\<close>, which
  raises AttributeError; \<^verbatim>\<open>run\<close> is not called (the log of the process is unchanged) and
  no result is returned.
\<close>

theorem execute_without_session_raises:
  "execute e command T host_h1 p = (Inl AttributeError, host_h1, p)"
  by (simp add: host_h1_def init_attrs_def dict_pop_def dict_del_def env0_def execute_def
        session_def session_via_connect_def connect_def make_session_args_def py_bind_def
        attr_def default_timeout_def dict_get_def py_or_def Let_def)

section \<open>Serialisation and the round trip\<close>

lemma keep_keys_excludes:
  "''name'' \<notin> set keep_keys" "''_broker_provider_instance'' \<notin> set keep_keys"
  "''type'' \<notin> set keep_keys" "''_prov_inst'' \<notin> set keep_keys"
  "''from_dict'' \<notin> set keep_keys"
  by (simp_all add: keep_keys_def)

lemma keep_keys_includes: "''hostname'' \<in> set keep_keys" "''ip'' \<in> set keep_keys"
  by (simp_all add: keep_keys_def)

lemma keep_keys_allowed: "set keep_keys \<subseteq> set allow_list"
  by (simp add: keep_keys_def allow_list_def)

lemma to_dict_Inr:
  "to_dict h = Inr d \<Longrightarrow>
   \<exists>inst. attr h ''_prov_inst'' = Inr (PProvider (Some inst))
     \<and> d = dict_update
           [(''name'', dict_get h ''name'' PNone), (''_broker_provider_instance'', inst),
            (''type'', PStr ''host'')]
           (filter (\<lambda>kv. fst kv \<in> set keep_keys) h)"
  by (auto simp: to_dict_def split: sum.splits pyval.splits option.splits)

lemma to_dict_Inl:
  "\<forall>inst. attr h ''_prov_inst'' \<noteq> Inr (PProvider (Some inst)) \<Longrightarrow> to_dict h = Inl AttributeError"
  by (auto simp: to_dict_def split: sum.splits pyval.splits option.splits dest: attr_error)

lemma map_of_filter_keys:
  "map_of (filter (\<lambda>kv. fst kv \<in> S) h) k = (if k \<in> S then map_of h k else None)"
  by (induction h) auto

lemma map_of_to_dict_kept:
  assumes "to_dict h = Inr d" and "k \<in> set keep_keys"
  shows "map_of d k = map_of h k"
proof -
  from to_dict_Inr [OF assms(1)] obtain inst where
    d: "d = dict_update
           [(''name'', dict_get h ''name'' PNone), (''_broker_provider_instance'', inst),
            (''type'', PStr ''host'')]
           (filter (\<lambda>kv. fst kv \<in> set keep_keys) h)"
    by blast
  have "k \<noteq> ''name''" "k \<noteq> ''_broker_provider_instance''" "k \<noteq> ''type''"
    using assms(2) keep_keys_excludes by auto
  then show ?thesis
    unfolding d map_of_dict_update map_add_def map_of_filter_keys
    using assms(2) by (simp split: option.splits)
qed

lemma map_of_to_dict_other:
  assumes "to_dict h = Inr d" and "k \<notin> set keep_keys"
  shows "map_of d k =
     map_of [(''name'', dict_get h ''name'' PNone),
             (''_broker_provider_instance'',
                case map_of h ''_prov_inst'' of Some (PProvider (Some inst)) \<Rightarrow> inst | _ \<Rightarrow> PNone),
             (''type'', PStr ''host'')] k"
proof -
  from to_dict_Inr [OF assms(1)] obtain inst where
    pi: "attr h ''_prov_inst'' = Inr (PProvider (Some inst))" and
    d: "d = dict_update
           [(''name'', dict_get h ''name'' PNone), (''_broker_provider_instance'', inst),
            (''type'', PStr ''host'')]
           (filter (\<lambda>kv. fst kv \<in> set keep_keys) h)"
    by blast
  from pi have m: "map_of h ''_prov_inst'' = Some (PProvider (Some inst))"
    by (auto simp: attr_def split: option.splits)
  show ?thesis
    unfolding d map_of_dict_update map_add_def map_of_filter_keys
    using assms(2) by (simp add: m)
qed

lemma to_dict_keys:
  assumes "to_dict h = Inr d"
  shows "fst ` set d \<subseteq> set allow_list"
proof
  fix k assume "k \<in> fst ` set d"
  then have nn: "map_of d k \<noteq> None" by (simp add: map_of_eq_None_iff)
  show "k \<in> set allow_list"
  proof (cases "k \<in> set keep_keys")
    case True
    then show ?thesis using keep_keys_allowed by blast
  next
    case False
    from nn have "k = ''name'' \<or> k = ''_broker_provider_instance'' \<or> k = ''type''"
      unfolding map_of_to_dict_other [OF assms False] by (simp split: if_splits)
    then show ?thesis by (auto simp: allow_list_def)
  qed
qed


lemma from_dict_result:
  "fst (from_dict e stack r p) = Inr h' \<Longrightarrow>
   \<not> has_key r ''from_dict''
   \<and> (\<exists>hn. h' = init_attrs e hn (r @ [(''from_dict'', PBool True)]))"
  by (auto simp: from_dict_def split: if_splits dest: init_result)

lemma from_dict_lacks_provider_link:
  assumes "\<not> has_key r ''_prov_inst''" and "fst (from_dict e stack r p) = Inr h'"
  shows "to_dict h' = Inl AttributeError"
proof -
  from from_dict_result [OF assms(2)] obtain hn where
    h': "h' = init_attrs e hn (r @ [(''from_dict'', PBool True)])" by blast
  have "map_of h' ''_prov_inst'' = None"
    using assms(1) unfolding h'
    by (simp add: map_of_init_attrs_other map_of_append_other has_key_def del: map_of_append)
  then show ?thesis
    by (intro to_dict_Inl) (simp add: attr_def)
qed

lemma from_dict_keeps_instance:
  assumes "map_of r ''_broker_provider_instance'' = Some inst"
    and "fst (from_dict e stack r p) = Inr h'"
  shows "attr h' ''_broker_provider_instance'' = Inr inst"
proof -
  from from_dict_result [OF assms(2)] obtain hn where
    h': "h' = init_attrs e hn (r @ [(''from_dict'', PBool True)])" by blast
  show ?thesis
    using assms(1) unfolding h'
    by (simp add: attr_def map_of_init_attrs_other map_of_append_other del: map_of_append)
qed

text \<open>The example Hosts, evaluated.\<close>

lemma host_h1_eq:
  "host_h1 = [(''hostname'', PStr ''h1''), (''name'', PNone), (''username'', PStr ''root''),
      (''password'', PNone), (''timeout'', PInt 60), (''port'', PInt 22),
      (''key_filename'', PNone), (''ipv6'', PBool False), (''ipv4_fallback'', PBool True),
      (''_session'', PNone)]"
  by (simp add: host_h1_def init_attrs_def dict_pop_def dict_get_def dict_del_def env0_def)

lemma host_p1_eq:
  "host_p1 = [(''hostname'', PStr ''h1''), (''name'', PStr ''n1''), (''username'', PStr ''root''),
      (''password'', PNone), (''timeout'', PInt 60), (''port'', PInt 22),
      (''key_filename'', PNone), (''ipv6'', PBool False), (''ipv4_fallback'', PBool True),
      (''_prov_inst'', PProvider (Some (PStr ''i-1''))), (''_session'', PNone)]"
  by (simp add: host_p1_def init_attrs_def dict_pop_def dict_get_def dict_del_def env0_def)

lemma host_r1_eq:
  "host_r1 = [(''hostname'', PNone), (''name'', PStr ''n1''), (''username'', PStr ''root''),
      (''password'', PNone), (''timeout'', PInt 60), (''port'', PInt 22),
      (''key_filename'', PNone), (''ipv6'', PBool False), (''ipv4_fallback'', PBool True),
      (''_prov_inst'', PProvider (Some (PStr ''i-1''))), (''_session'', PNone)]"
  by (simp add: host_r1_def init_attrs_def dict_pop_def dict_get_def dict_del_def env0_def)

lemma host_h1_to_dict: "to_dict host_h1 = Inl AttributeError"
  by (simp add: host_h1_eq to_dict_def attr_def)

lemma host_p1_to_dict:
  "to_dict host_p1 = Inr [(''name'', PStr ''n1''), (''_broker_provider_instance'', PStr ''i-1''),
      (''type'', PStr ''host''), (''hostname'', PStr ''h1'')]"
  by (simp add: host_p1_eq to_dict_def attr_def keep_keys_def dict_get_def dict_del_def)

lemma host_r1_to_dict:
  "to_dict host_r1 = Inr [(''name'', PStr ''n1''), (''_broker_provider_instance'', PStr ''i-1''),
      (''type'', PStr ''host''), (''hostname'', PNone)]"
  by (simp add: host_r1_eq to_dict_def attr_def keep_keys_def dict_get_def dict_del_def)

lemma from_dict_p1:
  "\<exists>h'. fst (from_dict env0 []
       [(''name'', PStr ''n1''), (''_broker_provider_instance'', PStr ''i-1''),
        (''type'', PStr ''host''), (''hostname'', PStr ''h1'')] proc0) = Inr h'"
  by (simp add: from_dict_def has_key_def init_accepts env0_def dict_get_def)

text \<open>
  Claim C10. \<^verbatim>\<open>to_dict()\<close> raises AttributeError on every Host that has no attribute
  \<^verbatim>\<open>_prov_inst\<close> holding an object with an \<^verbatim>\<open>instance\<close> attribute. A Host built by
  \<^verbatim>\<open>from_dict\<close> from a record without the key \<^verbatim>\<open>_prov_inst\<close> has no such attribute; in
  particular the Host built from the record that \<^verbatim>\<open>to_dict()\<close> returned keeps the
  identifier under \<^verbatim>\<open>_broker_provider_instance\<close> and cannot be serialised again.
\<close>

theorem to_dict_requires_provider_link:
  "((\<forall>inst. attr h ''_prov_inst'' \<noteq> Inr (PProvider (Some inst))) \<longrightarrow>
       to_dict h = Inl AttributeError)
   \<and> (\<not> has_key r ''_prov_inst'' \<and> fst (from_dict e stack r p) = Inr h' \<longrightarrow>
        to_dict h' = Inl AttributeError)
   \<and> (to_dict h = Inr d \<and> fst (from_dict e stack d p) = Inr h'' \<longrightarrow>
        to_dict h'' = Inl AttributeError
        \<and> (\<exists>inst. attr h ''_prov_inst'' = Inr (PProvider (Some inst))
               \<and> attr h'' ''_broker_provider_instance'' = Inr inst))"
proof -
  have 1: "to_dict h = Inl AttributeError"
    if "\<forall>inst. attr h ''_prov_inst'' \<noteq> Inr (PProvider (Some inst))"
    using that by (rule to_dict_Inl)
  have 2: "to_dict h' = Inl AttributeError"
    if "\<not> has_key r ''_prov_inst'' \<and> fst (from_dict e stack r p) = Inr h'"
    using that from_dict_lacks_provider_link by blast
  have 3: "to_dict h'' = Inl AttributeError
        \<and> (\<exists>inst. attr h ''_prov_inst'' = Inr (PProvider (Some inst))
               \<and> attr h'' ''_broker_provider_instance'' = Inr inst)"
    if a: "to_dict h = Inr d \<and> fst (from_dict e stack d p) = Inr h''"
  proof -
    from a have td: "to_dict h = Inr d" and fd: "fst (from_dict e stack d p) = Inr h''"
      by simp_all
    from to_dict_Inr [OF td] obtain inst where
      pi: "attr h ''_prov_inst'' = Inr (PProvider (Some inst))" by blast
    then have m: "map_of h ''_prov_inst'' = Some (PProvider (Some inst))"
      by (auto simp: attr_def split: option.splits)
    have none: "\<not> has_key d ''_prov_inst''"
      unfolding has_key_def map_of_to_dict_other [OF td keep_keys_excludes(4)] by simp
    have bpi: "map_of d ''_broker_provider_instance'' = Some inst"
      unfolding map_of_to_dict_other [OF td keep_keys_excludes(2)] by (simp add: m)
    show ?thesis
      using from_dict_lacks_provider_link [OF none fd] from_dict_keeps_instance [OF bpi fd] pi
      by blast
  qed
  from 1 2 3 show ?thesis by blast
qed

theorem to_dict_requires_provider_link_witness:
  "(\<forall>inst. attr host_h1 ''_prov_inst'' \<noteq> Inr (PProvider (Some inst)))
   \<and> to_dict host_h1 = Inl AttributeError
   \<and> to_dict host_p1
       = Inr [(''name'', PStr ''n1''), (''_broker_provider_instance'', PStr ''i-1''),
              (''type'', PStr ''host''), (''hostname'', PStr ''h1'')]
   \<and> \<not> has_key [(''name'', PStr ''n1''), (''_broker_provider_instance'', PStr ''i-1''),
                 (''type'', PStr ''host''), (''hostname'', PStr ''h1'')] ''_prov_inst''
   \<and> (\<exists>h'. fst (from_dict env0 []
                  [(''name'', PStr ''n1''), (''_broker_provider_instance'', PStr ''i-1''),
                   (''type'', PStr ''host''), (''hostname'', PStr ''h1'')] proc0) = Inr h'
          \<and> to_dict h' = Inl AttributeError
          \<and> attr host_p1 ''_prov_inst'' = Inr (PProvider (Some (PStr ''i-1'')))
          \<and> attr h' ''_broker_provider_instance'' = Inr (PStr ''i-1''))"
proof -
  let ?d = "[(''name'', PStr ''n1''), (''_broker_provider_instance'', PStr ''i-1''),
             (''type'', PStr ''host''), (''hostname'', PStr ''h1'')]"
  from from_dict_p1 obtain h' where fd: "fst (from_dict env0 [] ?d proc0) = Inr h'" by blast
  have no: "\<forall>inst. attr host_h1 ''_prov_inst'' \<noteq> Inr (PProvider (Some inst))"
    by (simp add: host_h1_eq attr_def)
  have pi: "attr host_p1 ''_prov_inst'' = Inr (PProvider (Some (PStr ''i-1'')))"
    by (simp add: host_p1_eq attr_def)
  have nk: "\<not> has_key ?d ''_prov_inst''" by (simp add: has_key_def)
  from to_dict_requires_provider_link [of host_h1 ?d env0 "[]" proc0 h' ?d h'] no
  have 1: "to_dict host_h1 = Inl AttributeError" by blast
  from to_dict_requires_provider_link [of host_p1 ?d env0 "[]" proc0 h' ?d h'] host_p1_to_dict fd pi
  have 2: "to_dict h' = Inl AttributeError \<and> attr h' ''_broker_provider_instance'' = Inr (PStr ''i-1'')"
    by auto
  from no 1 2 host_p1_to_dict nk fd pi show ?thesis by blast
qed

text \<open>
  Claim C5. Every key of a record returned by \<^verbatim>\<open>to_dict()\<close> is in the documented
  allow-list. When \<^verbatim>\<open>to_dict()\<close> returns a record for a Host that has a truthy \<^verbatim>\<open>hostname\<close>
  or \<^verbatim>\<open>ip\<close> (or the round trip runs under \<^verbatim>\<open>reconstruct_host\<close>), and the settings gate is
  or has been passed, \<^verbatim>\<open>from_dict\<close> of that record yields a Host with the same
  \<^verbatim>\<open>hostname\<close> and the same \<^verbatim>\<open>name\<close>.
\<close>

theorem to_dict_round_trip:
  assumes "to_dict h = Inr d"
  shows "fst ` set d \<subseteq> set allow_list
    \<and> (hasattr h ''hostname''
         \<and> (SETTINGS_VALIDATED p \<or> validate_ok e)
         \<and> (truthy (dict_get h ''hostname'' PNone) \<or> truthy (dict_get h ''ip'' PNone)
              \<or> ''reconstruct_host'' \<in> set stack)
       \<longrightarrow> (\<exists>h'. fst (from_dict e stack d p) = Inr h'
               \<and> attr h' ''hostname'' = attr h ''hostname''
               \<and> attr h' ''name'' = Inr (dict_get h ''name'' PNone)))"
proof (intro conjI impI)
  show "fst ` set d \<subseteq> set allow_list" by (rule to_dict_keys [OF assms])
next
  let ?kw = "d @ [(''from_dict'', PBool True)]"
  assume a: "hasattr h ''hostname''
         \<and> (SETTINGS_VALIDATED p \<or> validate_ok e)
         \<and> (truthy (dict_get h ''hostname'' PNone) \<or> truthy (dict_get h ''ip'' PNone)
              \<or> ''reconstruct_host'' \<in> set stack)"
  have nf: "\<not> has_key d ''from_dict''"
    unfolding has_key_def map_of_to_dict_other [OF assms keep_keys_excludes(5)] by simp
  have dh: "map_of d ''hostname'' = map_of h ''hostname''"
    and di: "map_of d ''ip'' = map_of h ''ip''"
    by (simp_all add: map_of_to_dict_kept [OF assms] keep_keys_includes)
  have dn: "map_of d ''name'' = Some (dict_get h ''name'' PNone)"
    unfolding map_of_to_dict_other [OF assms keep_keys_excludes(1)] by simp
  have kh: "dict_get ?kw ''hostname'' x = dict_get h ''hostname'' x"
    and ki: "dict_get ?kw ''ip'' x = dict_get h ''ip'' x" for x
    using nf by (simp_all add: dict_get_append_fresh) (simp_all add: dict_get_def dh di)
  have kn: "dict_get ?kw ''name'' x = dict_get h ''name'' PNone" for x
    using nf by (simp add: dict_get_append_fresh) (simp add: dict_get_def dn)
  from a obtain v where hv: "map_of h ''hostname'' = Some v"
    by (auto simp: hasattr_def has_key_def)
  have acc: "fst (from_dict e stack d p)
      = Inr (init_attrs e (py_or (dict_get ?kw ''hostname'' PNone) (dict_get ?kw ''ip'' PNone)) ?kw)"
    using a nf by (simp add: from_dict_def init_accepts kh ki)
  have "attr (init_attrs e hn ?kw) ''hostname'' = attr h ''hostname''" for hn
    by (simp add: attr_def map_of_init_attrs_hostname kh) (simp add: dict_get_def hv)
  moreover have "attr (init_attrs e hn ?kw) ''name'' = Inr (dict_get h ''name'' PNone)" for hn
    by (simp add: attr_def map_of_init_attrs_name kn)
  ultimately show "\<exists>h'. fst (from_dict e stack d p) = Inr h'
               \<and> attr h' ''hostname'' = attr h ''hostname''
               \<and> attr h' ''name'' = Inr (dict_get h ''name'' PNone)"
    unfolding acc by simp
qed

theorem to_dict_round_trip_witness:
  "to_dict host_p1
       = Inr [(''name'', PStr ''n1''), (''_broker_provider_instance'', PStr ''i-1''),
              (''type'', PStr ''host''), (''hostname'', PStr ''h1'')]
   \<and> fst ` set [(''name'', PStr ''n1''), (''_broker_provider_instance'', PStr ''i-1''),
                (''type'', PStr ''host''), (''hostname'', PStr ''h1'')] \<subseteq> set allow_list
   \<and> hasattr host_p1 ''hostname''
   \<and> validate_ok env0
   \<and> truthy (dict_get host_p1 ''hostname'' PNone)
   \<and> (\<exists>h'. fst (from_dict env0 []
                  [(''name'', PStr ''n1''), (''_broker_provider_instance'', PStr ''i-1''),
                   (''type'', PStr ''host''), (''hostname'', PStr ''h1'')] proc0) = Inr h'
          \<and> attr h' ''hostname'' = Inr (PStr ''h1'')
          \<and> attr h' ''name'' = Inr (PStr ''n1''))"
  using to_dict_round_trip [OF host_p1_to_dict, of proc0 env0 "[]"] host_p1_to_dict
  by (simp add: host_p1_eq hasattr_def has_key_def env0_def dict_get_def attr_def)

text \<open>\<^verbatim>\<open>to_dict()\<close> raises on the Host a caller builds with a hostname alone, which has no
  provider link; and the record of a Host that was reconstructed without an identity is
  rejected by \<^verbatim>\<open>from_dict\<close> outside \<^verbatim>\<open>reconstruct_host\<close>.\<close>

theorem to_dict_round_trip_counterexample:
  "to_dict host_h1 = Inl AttributeError
   \<and> to_dict host_r1
       = Inr [(''name'', PStr ''n1''), (''_broker_provider_instance'', PStr ''i-1''),
              (''type'', PStr ''host''), (''hostname'', PNone)]
   \<and> fst (from_dict env0 []
            [(''name'', PStr ''n1''), (''_broker_provider_instance'', PStr ''i-1''),
             (''type'', PStr ''host''), (''hostname'', PNone)] proc0) = Inl AttributeError"
  by (simp add: host_h1_to_dict host_r1_to_dict from_dict_def has_key_def init_cases
        raise_package_HostError)
     (simp add: dict_get_def env0_def proc0_def)

section \<open>The package-manager probe\<close>

lemma host_c1_eq:
  "host_c1 = [(''hostname'', PStr ''c1''), (''name'', PNone), (''username'', PStr ''root''),
      (''password'', PNone), (''timeout'', PInt 60), (''port'', PInt 22),
      (''key_filename'', PNone), (''ipv6'', PBool False), (''ipv4_fallback'', PBool True),
      (''_cont_inst'', PContainer [] ''<podman client>''), (''_session'', PNone)]"
  by (simp add: host_c1_def init_attrs_def dict_pop_def dict_get_def dict_del_def env0_def)

lemma podman_client: "str_contains ''podman'' ''<podman client>''"
  by simp

lemma which_yum_no: "res_contains ''no yum in'' (Result [] ''which: no yum in (/usr/bin)'' 1)"
  by (simp add: res_contains_def)

text \<open>
  Claim C4. The probe asks \<^verbatim>\<open>which\<close> for \<^verbatim>\<open>yum\<close>, \<^verbatim>\<open>dnf\<close>, \<^verbatim>\<open>zypper\<close> in that order
  and returns the first candidate whose output contains \<^verbatim>\<open>no <candidate> in\<close>, which
  is what \<^verbatim>\<open>which\<close> prints for a program it does not find. On a machine that has
  \<^verbatim>\<open>dnf\<close> only, the lookup of \<^verbatim>\<open>yum\<close> fails and the lookup of \<^verbatim>\<open>dnf\<close> succeeds, and
  the probe returns \<^verbatim>\<open>yum\<close>; on a machine that has all three it returns \<^verbatim>\<open>None\<close>.
\<close>

theorem pkg_mgr_returns_missing_manager:
  "status (run env_dnf (ContainerSession (PStr ''podman'') None) ''which yum'' PNone) = 1
   \<and> status (run env_dnf (ContainerSession (PStr ''podman'') None) ''which dnf'' PNone) = 0
   \<and> fst (pkg_mgr env_dnf host_c1 proc0) = Inr (PStr ''yum'')
   \<and> status (run env_all (ContainerSession (PStr ''podman'') None) ''which yum'' PNone) = 0
   \<and> fst (pkg_mgr env_all host_c1 proc0) = Inr PNone"
  by (simp add: pkg_mgr_def host_c1_eq execute_def session_def attr_def default_timeout_def
        dict_get_def env_dnf_def env_all_def env0_def which_run_def which_all_def
        res_contains_def proc0_def Let_def)

section \<open>The backend chosen by the session accessor\<close>

lemma connect_nil_log:
  "log (snd (snd (connect [] h p))) = log p @
     (if truthy (py_or (dict_get h ''is_container'' PNone) (dict_get h ''_cont_inst'' PNone))
      then (case attr h ''_settings'' of
              Inl err \<Rightarrow> []
            | Inr st \<Rightarrow> [EvOpen (ContainerSession PNone (Some st))])
      else (case make_session_args h of
              Inl err \<Rightarrow> []
            | Inr args \<Rightarrow> [EvOpen (MadeSession args)]))"
  by (simp add: connect_def assign_session_def Let_def dict_get_def split: sum.splits)

lemma session_via_connect_log:
  "snd (snd (session_via_connect h p)) = snd (snd (connect [] h p))"
  using connect_raises [of "[]" h p]
  by (auto simp: session_via_connect_def split: prod.splits sum.splits)

lemma host_c22_eq:
  "host_c22 = [(''hostname'', PStr ''c2''), (''name'', PNone), (''username'', PStr ''root''),
      (''password'', PNone), (''timeout'', PInt 60), (''port'', PInt 22),
      (''key_filename'', PNone), (''ipv6'', PBool False), (''ipv4_fallback'', PBool True),
      (''_settings'', PDict []),
      (''_cont_inst'', PContainer [(PInt 22, PInt 2222)] ''<docker client>''),
      (''_session'', PNone)]"
  by (simp add: host_c22_def init_attrs_def dict_pop_def dict_get_def dict_del_def env0_def)

lemma host_s1_eq:
  "host_s1 = [(''hostname'', PStr ''h1''), (''name'', PNone), (''username'', PStr ''root''),
      (''password'', PNone), (''timeout'', PInt 60), (''port'', PInt 22),
      (''key_filename'', PNone), (''ipv6'', PBool False), (''ipv4_fallback'', PBool True),
      (''_settings'', PDict []), (''DEFAULT_USER'', PStr ''root''), (''_session'', PNone)]"
  by (simp add: host_s1_def init_attrs_def dict_pop_def dict_get_def dict_del_def env0_def)

lemma host_s1_args:
  "make_session_args host_s1
     = Inr [(''settings_obj'', PDict []), (''hostname'', PStr ''h1''), (''port'', PInt 22),
            (''username'', PStr ''root''), (''password'', PNone), (''key_filename'', PNone),
            (''timeout'', PInt 60), (''host'', PStr ''h1'')]"
  by (simp add: host_s1_eq make_session_args_def py_bind_def ssh_setting_def py_get_def
        attr_def dict_get_def)

text \<open>
  Claim C7. On a Host without a session: when the Host has a container instance whose
  port 22 is not mapped, the accessor attaches a container-backed session and opens no
  other. Otherwise (no container instance, or one whose port 22 is mapped) the accessor
  does what \<^verbatim>\<open>connect()\<close> does, and \<^verbatim>\<open>connect()\<close> chooses by its own test: it builds a
  container-backed session when \<^verbatim>\<open>is_container\<close> or \<^verbatim>\<open>_cont_inst\<close> is truthy, so also for
  a container whose port 22 is mapped, and an SSH-backed session with \<^verbatim>\<open>make_session\<close>
  only when neither is.
\<close>

theorem session_backend:
  assumes "attr h ''_session'' = Inr PNone"
  shows
    "(map_of h ''_cont_inst'' = Some (PContainer ports client)
        \<and> \<not> truthy (dict_get ports (PInt 22) PNone) \<longrightarrow>
      (\<exists>rt. session h p
         = (Inr (PSession (ContainerSession (PStr rt) None)),
            dict_set ''_session'' (PSession (ContainerSession (PStr rt) None)) h,
            p\<lparr>log := log p @ [EvOpen (ContainerSession (PStr rt) None)]\<rparr>)))
   \<and> (map_of h ''_cont_inst'' = None
        \<or> map_of h ''_cont_inst'' = Some (PContainer ports client)
            \<and> truthy (dict_get ports (PInt 22) PNone) \<longrightarrow>
      session h p = session_via_connect h p
      \<and> log (snd (snd (session h p))) = log p @
         (if truthy (py_or (dict_get h ''is_container'' PNone) (dict_get h ''_cont_inst'' PNone))
          then (case attr h ''_settings'' of
                  Inl err \<Rightarrow> []
                | Inr st \<Rightarrow> [EvOpen (ContainerSession PNone (Some st))])
          else (case make_session_args h of
                  Inl err \<Rightarrow> []
                | Inr args \<Rightarrow> [EvOpen (MadeSession args)])))"
proof (intro conjI impI)
  assume "map_of h ''_cont_inst'' = Some (PContainer ports client)
        \<and> \<not> truthy (dict_get ports (PInt 22) PNone)"
  then show "\<exists>rt. session h p
         = (Inr (PSession (ContainerSession (PStr rt) None)),
            dict_set ''_session'' (PSession (ContainerSession (PStr rt) None)) h,
            p\<lparr>log := log p @ [EvOpen (ContainerSession (PStr rt) None)]\<rparr>)"
    using assms by (simp add: session_def Let_def)
next
  assume a: "map_of h ''_cont_inst'' = None
        \<or> map_of h ''_cont_inst'' = Some (PContainer ports client)
            \<and> truthy (dict_get ports (PInt 22) PNone)"
  then show eq: "session h p = session_via_connect h p"
    using assms by (auto simp: session_def)
  show "log (snd (snd (session h p))) = log p @
         (if truthy (py_or (dict_get h ''is_container'' PNone) (dict_get h ''_cont_inst'' PNone))
          then (case attr h ''_settings'' of
                  Inl err \<Rightarrow> []
                | Inr st \<Rightarrow> [EvOpen (ContainerSession PNone (Some st))])
          else (case make_session_args h of
                  Inl err \<Rightarrow> []
                | Inr args \<Rightarrow> [EvOpen (MadeSession args)]))"
    unfolding eq session_via_connect_log by (rule connect_nil_log)
qed

theorem session_backend_witness:
  "attr host_c1 ''_session'' = Inr PNone
   \<and> map_of host_c1 ''_cont_inst'' = Some (PContainer [] ''<podman client>'')
   \<and> \<not> truthy (dict_get [] (PInt 22) PNone)
   \<and> (\<exists>rt. session host_c1 proc0
         = (Inr (PSession (ContainerSession (PStr rt) None)),
            dict_set ''_session'' (PSession (ContainerSession (PStr rt) None)) host_c1,
            proc0\<lparr>log := log proc0 @ [EvOpen (ContainerSession (PStr rt) None)]\<rparr>))
   \<and> attr host_s1 ''_session'' = Inr PNone
   \<and> map_of host_s1 ''_cont_inst'' = None
   \<and> log (snd (snd (session host_s1 proc0)))
       = [EvOpen (MadeSession
            [(''settings_obj'', PDict []), (''hostname'', PStr ''h1''), (''port'', PInt 22),
             (''username'', PStr ''root''), (''password'', PNone), (''key_filename'', PNone),
             (''timeout'', PInt 60), (''host'', PStr ''h1'')])]
   \<and> attr host_c22 ''_session'' = Inr PNone
   \<and> map_of host_c22 ''_cont_inst''
       = Some (PContainer [(PInt 22, PInt 2222)] ''<docker client>'')
   \<and> truthy (dict_get [(PInt 22, PInt 2222)] (PInt 22) PNone)
   \<and> log (snd (snd (session host_c22 proc0)))
       = [EvOpen (ContainerSession PNone (Some (PDict [])))]"
proof -
  have c1: "attr host_c1 ''_session'' = Inr PNone"
    and c1i: "map_of host_c1 ''_cont_inst'' = Some (PContainer [] ''<podman client>'')"
    by (simp_all add: host_c1_eq attr_def)
  have s1: "attr host_s1 ''_session'' = Inr PNone"
    and s1i: "map_of host_s1 ''_cont_inst'' = None"
    and s1c: "\<not> truthy (py_or (dict_get host_s1 ''is_container'' PNone)
                              (dict_get host_s1 ''_cont_inst'' PNone))"
    by (simp_all add: host_s1_eq attr_def dict_get_def py_or_def)
  have c2: "attr host_c22 ''_session'' = Inr PNone"
    and c2i: "map_of host_c22 ''_cont_inst''
       = Some (PContainer [(PInt 22, PInt 2222)] ''<docker client>'')"
    and c2c: "truthy (py_or (dict_get host_c22 ''is_container'' PNone)
                            (dict_get host_c22 ''_cont_inst'' PNone))"
    and c2s: "attr host_c22 ''_settings'' = Inr (PDict [])"
    by (simp_all add: host_c22_eq attr_def dict_get_def py_or_def)
  have p22: "truthy (dict_get [(PInt 22, PInt 2222)] (PInt 22) PNone)"
    and p0: "\<not> truthy (dict_get [] (PInt 22) PNone)"
    by (simp_all add: dict_get_def)
  from session_backend [OF c1, of "[]" "''<podman client>''" proc0] c1i p0
  have 1: "\<exists>rt. session host_c1 proc0
         = (Inr (PSession (ContainerSession (PStr rt) None)),
            dict_set ''_session'' (PSession (ContainerSession (PStr rt) None)) host_c1,
            proc0\<lparr>log := log proc0 @ [EvOpen (ContainerSession (PStr rt) None)]\<rparr>)"
    by blast
  from session_backend [OF s1, of "[]" "[]" proc0, THEN conjunct2, rule_format,
         THEN conjunct2, OF disjI1 [OF s1i]] s1c
  have 2: "log (snd (snd (session host_s1 proc0)))
       = [EvOpen (MadeSession
            [(''settings_obj'', PDict []), (''hostname'', PStr ''h1''), (''port'', PInt 22),
             (''username'', PStr ''root''), (''password'', PNone), (''key_filename'', PNone),
             (''timeout'', PInt 60), (''host'', PStr ''h1'')])]"
    by (simp add: host_s1_args proc0_def)
  from session_backend [OF c2, of "[(PInt 22, PInt 2222)]" "''<docker client>''" proc0,
         THEN conjunct2, rule_format, THEN conjunct2, OF disjI2 [OF conjI [OF c2i p22]]] c2c
  have 3: "log (snd (snd (session host_c22 proc0)))
       = [EvOpen (ContainerSession PNone (Some (PDict [])))]"
    by (simp add: c2s proc0_def)
  from c1 c1i p0 1 s1 s1i 2 c2 c2i p22 3 show ?thesis by blast
qed

text \<open>A container instance with port 22 mapped is not on the SSH-backed path: the one
  session the accessor opens for it is container-backed.\<close>

theorem session_backend_counterexample:
  "map_of host_c22 ''_cont_inst'' = Some (PContainer [(PInt 22, PInt 2222)] ''<docker client>'')
   \<and> truthy (dict_get [(PInt 22, PInt 2222)] (PInt 22) PNone)
   \<and> attr host_c22 ''_session'' = Inr PNone
   \<and> log (snd (snd (session host_c22 proc0)))
       = [EvOpen (ContainerSession PNone (Some (PDict [])))]"
  by (simp add: host_c22_eq session_def session_via_connect_def connect_def assign_session_def
        attr_def dict_get_def py_or_def proc0_def Let_def)

end
